theory Spec2Isabelle
  imports Complex_Main "HOL-Library.AList"
begin

section \<open>Values of a recipe and of a JSON payload\<close>

text \<open>
  A recipe is what \<^verbatim>\<open>yaml.safe_load\<close> returns and a payload is what \<^verbatim>\<open>json.loads\<close>
  returns: a tree of Python values. A dict is an association list, in insertion order,
  since the order of \<^verbatim>\<open>args.items()\<close> is the order of the command's flags; its keys are
  strings. A string is the list of its code points, and a \<open>char\<close> is a code point below
  256 (not a byte of an encoding): text with a code point of 256 or more is not
  represented. A float is carried by the text \<^verbatim>\<open>str()\<close> prints for it (the shortest decimal
  that reads back as the same float) together with the number it denotes, so that neither
  the formatting nor the rounding of floating point has to be modelled.
\<close>

datatype fval = Finite rat | Inf | NaN

datatype pyval =
    PNone
  | PBool bool
  | PInt int
  | PFloat string fval
  | PStr string
  | PList "pyval list"
  | PTuple "pyval list"
  | PDict "(string \<times> pyval) list"

type_synonym pydict = "(string \<times> pyval) list"

datatype error =
    UnsupportedFramework pyval
  | MissingDependency
  | RecipeNotFound string
  | AttributeError
  | TypeError
  | KeyError
  | ValueError
  | OverflowError

text \<open>\<^verbatim>\<open>d.get(k)\<close> is \<open>map_of d k\<close>; \<^verbatim>\<open>d[k] = v\<close> is \<open>AList.update k v d\<close>, which
  overwrites in place or appends at the end, as a Python dict does.\<close>

definition setdefault :: "pydict \<Rightarrow> string \<Rightarrow> pyval \<Rightarrow> pyval \<times> pydict" where
  "setdefault d k v =
     (case map_of d k of
        Some x \<Rightarrow> (x, d)
      | None \<Rightarrow> (v, d @ [(k, v)]))"

definition get_default :: "pydict \<Rightarrow> string \<Rightarrow> pyval \<Rightarrow> pyval" where
  "get_default d k v = (case map_of d k of Some x \<Rightarrow> x | None \<Rightarrow> v)"

text \<open>A method of dict called on a value: only a dict has \<^verbatim>\<open>setdefault\<close> and \<^verbatim>\<open>get\<close>.\<close>

definition as_dict :: "pyval \<Rightarrow> error + pydict" where
  "as_dict v = (case v of PDict d \<Rightarrow> Inr d | _ \<Rightarrow> Inl AttributeError)"

definition truthy :: "pyval \<Rightarrow> bool" where
  "truthy v =
     (case v of
        PNone \<Rightarrow> False
      | PBool b \<Rightarrow> b
      | PInt i \<Rightarrow> i \<noteq> 0
      | PFloat _ f \<Rightarrow> f \<noteq> Finite 0
      | PStr s \<Rightarrow> s \<noteq> []
      | PList vs \<Rightarrow> vs \<noteq> []
      | PTuple vs \<Rightarrow> vs \<noteq> []
      | PDict d \<Rightarrow> d \<noteq> [])"

text \<open>Membership in a set hashes the value first: a list, a dict and a tuple holding one
  raise TypeError.\<close>

fun hashable :: "pyval \<Rightarrow> bool" where
  "hashable (PList vs) = False"
| "hashable (PDict d) = False"
| "hashable (PTuple vs) = list_all hashable vs"
| "hashable v = True"

section \<open>Validation and normalisation of the benchmark block\<close>

definition SUPPORTED_BENCHMARK_FRAMEWORKS :: "string set" where
  "SUPPORTED_BENCHMARK_FRAMEWORKS = {''llama-benchy''}"

definition in_supported :: "pyval \<Rightarrow> bool" where
  "in_supported v = (case v of PStr s \<Rightarrow> s \<in> SUPPORTED_BENCHMARK_FRAMEWORKS | _ \<Rightarrow> False)"

text \<open>
  \<open>which\<close> says whether \<^verbatim>\<open>shutil.which("llama-benchy")\<close> finds the executable. The
  function mutates the recipe and returns nothing: the model returns the recipe as it is
  after the call, or the exception raised. \<open>benchmark\<close> is the object stored in the recipe,
  so the three defaults are written back under the key \<^verbatim>\<open>benchmark\<close>.
\<close>

definition validate_recipe_benchmark_config :: "bool \<Rightarrow> pydict \<Rightarrow> error + pydict" where
  "validate_recipe_benchmark_config which recipe =
     (case setdefault recipe ''benchmark'' (PDict []) of (bv, recipe1) \<Rightarrow>
      case as_dict bv of Inl e \<Rightarrow> Inl e | Inr b0 \<Rightarrow>
      case setdefault b0 ''enabled'' (PBool False) of (_, b1) \<Rightarrow>
      case setdefault b1 ''framework'' (PStr ''llama-benchy'') of (framework, b2) \<Rightarrow>
      case setdefault b2 ''args'' (PDict []) of (_, benchmark) \<Rightarrow>
      let recipe2 = AList.update ''benchmark'' (PDict benchmark) recipe1 in
      if \<not> hashable framework then Inl TypeError
      else if \<not> in_supported framework then Inl (UnsupportedFramework framework)
      else if truthy (get_default benchmark ''enabled'' (PBool False))
              \<and> framework = PStr ''llama-benchy'' \<and> \<not> which
        then Inl MissingDependency
      else Inr recipe2)"

text \<open>The benchmark block after the three \<^verbatim>\<open>setdefault\<close> calls.\<close>

definition fill_benchmark :: "pydict \<Rightarrow> pydict" where
  "fill_benchmark b0 =
     snd (setdefault (snd (setdefault (snd (setdefault b0 ''enabled'' (PBool False)))
            ''framework'' (PStr ''llama-benchy''))) ''args'' (PDict []))"

section \<open>The command builder\<close>

text \<open>Decimal text of an integer, as \<^verbatim>\<open>str()\<close> and an f-string print it.\<close>

definition digit_char :: "nat \<Rightarrow> char" where
  "digit_char d = ''0123456789'' ! d"

fun nat_digits :: "nat \<Rightarrow> string" where
  "nat_digits n = (if n < 10 then [digit_char n] else nat_digits (n div 10) @ [digit_char (n mod 10)])"

declare nat_digits.simps [simp del]

definition int_str :: "int \<Rightarrow> string" where
  "int_str i = (if i < 0 then CHR ''-'' # nat_digits (nat (- i)) else nat_digits (nat i))"

text \<open>
  The Python runtime, where the program relies on a builtin that is not modelled in
  detail: \<open>container_repr\<close> is the text \<^verbatim>\<open>str()\<close> gives for a list, tuple or dict, and
  \<open>int_of_str\<close> is \<^verbatim>\<open>int()\<close> on a string, \<open>None\<close> where it raises ValueError.
\<close>

record runtime =
  container_repr :: "pyval \<Rightarrow> string"
  int_of_str :: "string \<Rightarrow> int option"

definition py_str :: "runtime \<Rightarrow> pyval \<Rightarrow> string" where
  "py_str rt v =
     (case v of
        PNone \<Rightarrow> ''None''
      | PBool b \<Rightarrow> (if b then ''True'' else ''False'')
      | PInt i \<Rightarrow> int_str i
      | PFloat s _ \<Rightarrow> s
      | PStr s \<Rightarrow> s
      | _ \<Rightarrow> container_repr rt v)"

text \<open>\<^verbatim>\<open>int(x)\<close>: a float is truncated towards zero.\<close>

definition py_int :: "runtime \<Rightarrow> pyval \<Rightarrow> error + int" where
  "py_int rt v =
     (case v of
        PInt i \<Rightarrow> Inr i
      | PBool b \<Rightarrow> Inr (if b then 1 else 0)
      | PFloat _ f \<Rightarrow>
          (case f of
             Finite q \<Rightarrow> Inr (if q < 0 then - \<lfloor>- q\<rfloor> else \<lfloor>q\<rfloor>)
           | Inf \<Rightarrow> Inl OverflowError
           | NaN \<Rightarrow> Inl ValueError)
      | PStr s \<Rightarrow> (case int_of_str rt s of Some i \<Rightarrow> Inr i | None \<Rightarrow> Inl ValueError)
      | _ \<Rightarrow> Inl TypeError)"

definition apply_llama_benchy_defaults :: "pydict \<Rightarrow> pydict" where
  "apply_llama_benchy_defaults benchmark_args =
     (let a1 = snd (setdefault benchmark_args ''pp'' (PList [PInt 2048]));
          a2 = snd (setdefault a1 ''depth'' (PList [PInt 0]));
          a3 = snd (setdefault a2 ''save_result'' (PStr ''test.md''))
      in snd (setdefault a3 ''enable_prefix_caching'' (PBool True)))"

text \<open>\<^verbatim>\<open>key.replace('_', '-')\<close> behind two hyphens.\<close>

definition flag_of :: "string \<Rightarrow> string" where
  "flag_of key = ''--'' @ map (\<lambda>c. if c = CHR ''_'' then CHR ''-'' else c) key"

text \<open>One turn of the loop over \<^verbatim>\<open>args.items()\<close>: the command after the entry.\<close>

definition append_cli_arg :: "runtime \<Rightarrow> string set \<Rightarrow> string list \<Rightarrow> string \<times> pyval \<Rightarrow> string list" where
  "append_cli_arg rt excludes cmd kv =
     (case kv of (key, val) \<Rightarrow>
        if key \<in> excludes then cmd
        else
          let flag = flag_of key in
          case val of
            PBool b \<Rightarrow> (if b then cmd @ [flag] else cmd)
          | PList vs \<Rightarrow> (if vs = [] then cmd else (cmd @ [flag]) @ map (py_str rt) vs)
          | PTuple vs \<Rightarrow> (if vs = [] then cmd else (cmd @ [flag]) @ map (py_str rt) vs)
          | _ \<Rightarrow> cmd @ [flag, py_str rt val])"

definition append_cli_args_from_dict ::
    "runtime \<Rightarrow> string list \<Rightarrow> pydict \<Rightarrow> string set option \<Rightarrow> string list" where
  "append_cli_args_from_dict rt cmd args exclude_keys =
     (let excludes = (case exclude_keys of None \<Rightarrow> {} | Some s \<Rightarrow> s)
      in foldl (append_cli_arg rt excludes) cmd args)"

definition get_recipe_base_url :: "runtime \<Rightarrow> pydict \<Rightarrow> error + string" where
  "get_recipe_base_url rt recipe =
     (case as_dict (get_default recipe ''defaults'' (PDict [])) of Inl e \<Rightarrow> Inl e | Inr defaults \<Rightarrow>
      case py_int rt (get_default defaults ''port'' (PInt 8000)) of Inl e \<Rightarrow> Inl e | Inr port \<Rightarrow>
      Inr (''http://localhost:'' @ int_str port @ ''/v1''))"

text \<open>
  The builder returns the command; it also writes the defaults into the recipe's
  \<^verbatim>\<open>benchmark.args\<close>, so the model returns the recipe after the call as well. When the
  recipe has no \<^verbatim>\<open>benchmark\<close> the defaults go into a fresh dict and the recipe is unchanged.
\<close>

definition build_llama_benchy_command ::
    "runtime \<Rightarrow> pydict \<Rightarrow> string \<Rightarrow> error + (string list \<times> pydict)" where
  "build_llama_benchy_command rt recipe model =
     (case as_dict (get_default recipe ''benchmark'' (PDict [])) of Inl e \<Rightarrow> Inl e | Inr benchmark \<Rightarrow>
      case setdefault benchmark ''args'' (PDict []) of (av, benchmark1) \<Rightarrow>
      case as_dict av of Inl e \<Rightarrow> Inl e | Inr args0 \<Rightarrow>
      let benchmark_args = apply_llama_benchy_defaults args0;
          benchmark2 = AList.update ''args'' (PDict benchmark_args) benchmark1;
          recipe1 = (if map_of recipe ''benchmark'' = None then recipe
                     else AList.update ''benchmark'' (PDict benchmark2) recipe)
      in
      case get_recipe_base_url rt recipe1 of Inl e \<Rightarrow> Inl e | Inr base_url \<Rightarrow>
      let cmd = [''llama-benchy'', ''--base-url'', base_url, ''--model'', model] in
      Inr (append_cli_args_from_dict rt cmd benchmark_args (Some {''base_url'', ''model''}), recipe1))"

section \<open>Recipe path resolution\<close>










section \<open>The readiness prober\<close>

text \<open>
  What one GET of the models URL gives: \<open>Failed msg\<close> when \<^verbatim>\<open>urlopen\<close> or the read
  raises an exception whose text is \<open>msg\<close>, \<open>NonJson\<close> when \<^verbatim>\<open>json.loads\<close> rejects
  the body, \<open>Json payload\<close> otherwise. The endpoint maps the URL and the number of
  requests made so far to the outcome and the seconds the request takes. The world holds
  the clock that \<^verbatim>\<open>time.time()\<close> reads and counts the requests and the sleeps; time is an
  exact rational number of seconds. Printing is not modelled; the one print that can
  fail, that of a payload holding a lone surrogate, needs text that is not represented
  here (the source then takes the non-JSON branch).
\<close>

datatype response = Failed string | NonJson | Json pyval

type_synonym endpoint = "string \<Rightarrow> nat \<Rightarrow> response \<times> rat"

record world =
  now :: rat
  requests :: nat
  sleeps :: nat

text \<open>\<^verbatim>\<open>time.sleep\<close> raises ValueError on a negative length.\<close>

definition py_sleep :: "int \<Rightarrow> world \<Rightarrow> error + world" where
  "py_sleep seconds w =
     (if seconds < 0 then Inl ValueError
      else Inr (w\<lparr>now := now w + of_int seconds, sleeps := Suc (sleeps w)\<rparr>))"

text \<open>
  \<^verbatim>\<open>str.strip()\<close> removes the characters that Python counts as whitespace. Among the
  code points below 256 these are tab to carriage return (9 to 13), the four separators
  28 to 31, the space (32), the next-line control U+0085 (133) and the no-break space
  U+00A0 (160).
\<close>

definition is_space :: "char \<Rightarrow> bool" where
  "is_space c =
     (let n = (of_char c :: nat)
      in (9 \<le> n \<and> n \<le> 13) \<or> (28 \<le> n \<and> n \<le> 32) \<or> n = 133 \<or> n = 160)"

definition py_strip :: "string \<Rightarrow> string" where
  "py_strip s = rev (dropWhile is_space (rev (dropWhile is_space s)))"

definition rstrip_slash :: "string \<Rightarrow> string" where
  "rstrip_slash s = rev (dropWhile (\<lambda>c. c = CHR ''/'') (rev s))"

definition type_name :: "pyval \<Rightarrow> string" where
  "type_name v =
     (case v of
        PNone \<Rightarrow> ''NoneType'' | PBool _ \<Rightarrow> ''bool'' | PInt _ \<Rightarrow> ''int'' | PFloat _ _ \<Rightarrow> ''float''
      | PStr _ \<Rightarrow> ''str'' | PList _ \<Rightarrow> ''list'' | PTuple _ \<Rightarrow> ''tuple'' | PDict _ \<Rightarrow> ''dict'')"

text \<open>The loop over \<^verbatim>\<open>("id", "model", "name")\<close> on the first entry.\<close>

fun scan_keys :: "pydict \<Rightarrow> string list \<Rightarrow> string option" where
  "scan_keys first [] = None"
| "scan_keys first (key # keys) =
     (case map_of first key of
        Some (PStr v) \<Rightarrow> (if py_strip v \<noteq> [] then Some (py_strip v) else scan_keys first keys)
      | _ \<Rightarrow> scan_keys first keys)"

text \<open>Lines 162 to 170: the model the payload names, \<open>Inr None\<close> when the code falls
  through to "No model entry found", \<open>Inl\<close> the text of the AttributeError when the payload
  is not a dict.\<close>

definition first_model :: "pyval \<Rightarrow> string + string option" where
  "first_model payload =
     (case payload of
        PDict p \<Rightarrow>
          (case get_default p ''data'' PNone of
             PList (first # _) \<Rightarrow>
               (case first of
                  PDict d \<Rightarrow> Inr (scan_keys d [''id'', ''model'', ''name''])
                | _ \<Rightarrow> Inr None)
           | _ \<Rightarrow> Inr None)
      | _ \<Rightarrow> Inl ([CHR 0x27] @ type_name payload @ [CHR 0x27] @ '' object has no attribute '' @ [CHR 0x27] @ ''get'' @ [CHR 0x27]))"

text \<open>
  The \<^verbatim>\<open>while\<close> loop, with fuel: \<open>None\<close> is a run that has not returned within \<open>fuel\<close>
  turns. A result is what the function returns or raises, the last recorded error, and
  the world.
\<close>

type_synonym probe_result = "(error + string option) \<times> string \<times> world"

definition sleep_then ::
    "int \<Rightarrow> string \<Rightarrow> world \<Rightarrow> (string \<Rightarrow> world \<Rightarrow> probe_result option) \<Rightarrow> probe_result option" where
  "sleep_then interval_seconds last_error w continue =
     (case py_sleep interval_seconds w of
        Inl e \<Rightarrow> Some (Inl e, last_error, w)
      | Inr w' \<Rightarrow> continue last_error w')"

fun poll :: "nat \<Rightarrow> endpoint \<Rightarrow> string \<Rightarrow> rat \<Rightarrow> int \<Rightarrow> string \<Rightarrow> world \<Rightarrow> probe_result option" where
  "poll 0 ep models_url deadline interval_seconds last_error w = None"
| "poll (Suc fuel) ep models_url deadline interval_seconds last_error w =
     (if \<not> now w < deadline then Some (Inr None, last_error, w)
      else
        (case ep models_url (requests w) of (resp, took) \<Rightarrow>
           let w1 = w\<lparr>now := now w + took, requests := Suc (requests w)\<rparr> in
           (case resp of
              Failed msg \<Rightarrow>
                sleep_then interval_seconds msg w1 (poll fuel ep models_url deadline interval_seconds)
            | NonJson \<Rightarrow>
                (case py_sleep interval_seconds w1 of
                   Inr w2 \<Rightarrow>
                     poll fuel ep models_url deadline interval_seconds ''non-JSON /v1/models response'' w2
                 | Inl e \<Rightarrow>
                     sleep_then interval_seconds ''sleep length must be non-negative'' w1
                       (poll fuel ep models_url deadline interval_seconds))
            | Json payload \<Rightarrow>
                (case first_model payload of
                   Inl msg \<Rightarrow>
                     sleep_then interval_seconds msg w1 (poll fuel ep models_url deadline interval_seconds)
                 | Inr (Some model) \<Rightarrow> Some (Inr (Some model), last_error, w1)
                 | Inr None \<Rightarrow>
                     sleep_then interval_seconds ''No model entry found in /v1/models response'' w1
                       (poll fuel ep models_url deadline interval_seconds)))))"

definition wait_for_models_endpoint_and_get_first_model ::
    "nat \<Rightarrow> endpoint \<Rightarrow> string \<Rightarrow> int \<Rightarrow> int \<Rightarrow> world \<Rightarrow> probe_result option" where
  "wait_for_models_endpoint_and_get_first_model fuel ep base_url timeout_seconds interval_seconds w =
     poll fuel ep (rstrip_slash base_url @ ''/models'') (now w + of_int timeout_seconds)
       interval_seconds ''unknown error'' w"

section \<open>The runner\<close>

text \<open>
  The environment of a run: whether the executable is on the search path, the endpoint,
  and what \<^verbatim>\<open>subprocess.run\<close> gives for a command, \<open>None\<close> when it raises
  FileNotFoundError and the return code otherwise.
\<close>

record env =
  which_llama_benchy :: bool
  http_get :: endpoint
  run_process :: "string list \<Rightarrow> int option"

text \<open>\<^verbatim>\<open>v[k]\<close> for a string key.\<close>

definition subscript :: "pyval \<Rightarrow> string \<Rightarrow> error + pyval" where
  "subscript v k =
     (case v of
        PDict d \<Rightarrow> (case map_of d k of Some x \<Rightarrow> Inr x | None \<Rightarrow> Inl KeyError)
      | _ \<Rightarrow> Inl TypeError)"

type_synonym run_result = "(error + int) \<times> world"

definition run_resolved :: "runtime \<Rightarrow> env \<Rightarrow> pydict \<Rightarrow> probe_result \<Rightarrow> run_result" where
  "run_resolved rt e recipe probed =
     (case probed of (r, _, w1) \<Rightarrow>
        (case r of
           Inl err \<Rightarrow> (Inl err, w1)
         | Inr None \<Rightarrow> (Inr 1, w1)
         | Inr (Some discovered_model) \<Rightarrow>
             (if discovered_model = [] then (Inr 1, w1)
              else
                (case build_llama_benchy_command rt recipe discovered_model of
                   Inl err \<Rightarrow> (Inl err, w1)
                 | Inr (cmd, _) \<Rightarrow>
                     (case run_process e cmd of
                        None \<Rightarrow> (Inr 1, w1)
                      | Some returncode \<Rightarrow> (Inr returncode, w1))))))"

definition run_recipe_benchmark ::
    "nat \<Rightarrow> runtime \<Rightarrow> env \<Rightarrow> pydict \<Rightarrow> bool \<Rightarrow> world \<Rightarrow> run_result option" where
  "run_recipe_benchmark fuel rt e recipe0 dry_run w =
     (case validate_recipe_benchmark_config (which_llama_benchy e) recipe0 of
        Inl err \<Rightarrow> Some (Inl err, w)
      | Inr recipe \<Rightarrow>
     (case subscript (PDict recipe) ''benchmark'' of
        Inl err \<Rightarrow> Some (Inl err, w)
      | Inr benchmark \<Rightarrow>
     (case subscript benchmark ''enabled'' of
        Inl err \<Rightarrow> Some (Inl err, w)
      | Inr enabled \<Rightarrow>
          if \<not> truthy enabled then Some (Inr 1, w)
          else if dry_run then
            (case build_llama_benchy_command rt recipe ''__from_v1_models__'' of
               Inl err \<Rightarrow> Some (Inl err, w)
             | Inr _ \<Rightarrow> Some (Inr 0, w))
          else
            (case get_recipe_base_url rt recipe of
               Inl err \<Rightarrow> Some (Inl err, w)
             | Inr base_url \<Rightarrow>
                 map_option (run_resolved rt e recipe)
                   (wait_for_models_endpoint_and_get_first_model fuel (http_get e) base_url 300 2 w)))))"

section \<open>Notions used to state the prober's properties\<close>

text \<open>
  The error the loop records for a response, \<open>None\<close> for a response that names a model:
  the text of the exception for a failed request or a payload that is not an object, and
  the two fixed messages of the source. \<open>after_request\<close> and \<open>after_retry\<close> are the world
  after a request, and after a request followed by one sleep.
\<close>

definition recorded_error :: "response \<Rightarrow> string option" where
  "recorded_error resp =
     (case resp of
        Failed msg \<Rightarrow> Some msg
      | NonJson \<Rightarrow> Some ''non-JSON /v1/models response''
      | Json payload \<Rightarrow>
          (case first_model payload of
             Inl msg \<Rightarrow> Some msg
           | Inr None \<Rightarrow> Some ''No model entry found in /v1/models response''
           | Inr (Some model) \<Rightarrow> None))"

definition after_request :: "rat \<Rightarrow> world \<Rightarrow> world" where
  "after_request took w =
     \<lparr>now = now w + took, requests = Suc (requests w), sleeps = sleeps w\<rparr>"

definition after_retry :: "rat \<Rightarrow> int \<Rightarrow> world \<Rightarrow> world" where
  "after_retry took interval_seconds w =
     \<lparr>now = now w + took + of_int interval_seconds, requests = Suc (requests w),
      sleeps = Suc (sleeps w)\<rparr>"

section \<open>Inputs for the examples\<close>

text \<open>
  A runtime whose two builtins are never consulted on scalar values, an endpoint that
  answers from a script and times out after it, an environment where the executable is
  installed, a world at time zero, the recipe of the end-to-end example, and a file system that
  holds one file.
\<close>

definition example_runtime :: runtime where
  "example_runtime = \<lparr>container_repr = (\<lambda>_. ''''), int_of_str = (\<lambda>_. None)\<rparr>"

definition scripted :: "(response \<times> rat) list \<Rightarrow> endpoint" where
  "scripted script url i = (if i < length script then script ! i else (Failed ''timed out'', 5))"

definition example_env :: "(response \<times> rat) list \<Rightarrow> env" where
  "example_env script =
     \<lparr>which_llama_benchy = True, http_get = scripted script, run_process = (\<lambda>cmd. Some 0)\<rparr>"

definition example_world :: world where
  "example_world = \<lparr>now = 0, requests = 0, sleeps = 0\<rparr>"

definition example_recipe :: pydict where
  "example_recipe =
     [(''defaults'', PDict [(''port'', PInt 8080)]),
      (''benchmark'', PDict [(''enabled'', PBool True),
         (''args'', PDict [(''temperature'', PFloat ''0.5'' (Finite (1 / 2)))])])]"


section \<open>Dictionaries\<close>

lemma setdefault_present: "map_of d k = Some x \<Longrightarrow> setdefault d k v = (x, d)"
  by (simp add: setdefault_def)

lemma snd_setdefault_present: "map_of d k = Some x \<Longrightarrow> snd (setdefault d k v) = d"
  by (simp add: setdefault_def)

lemma map_of_snd_setdefault:
  "map_of (snd (setdefault d k v)) k' =
     (if k' = k \<and> map_of d k = None then Some v else map_of d k')"
  by (auto simp: setdefault_def map_add_def split: option.splits)

lemma fst_setdefault: "fst (setdefault d k v) = get_default d k v"
  by (simp add: setdefault_def get_default_def split: option.splits)

lemma update_snoc_absent:
  "map_of d k = None \<Longrightarrow> AList.update k v (d @ [(k, x)]) = d @ [(k, v)]"
  by (induction d) (auto split: if_splits)

lemma map_of_snoc_other: "k \<noteq> k' \<Longrightarrow> map_of (d @ [(k', v)]) k = map_of d k"
  by (simp add: map_add_def split: option.splits)

section \<open>Properties of validation\<close>

text \<open>The function as one case split: on the benchmark block, then on the three checks.\<close>

lemma validate_unfold:
  "validate_recipe_benchmark_config which recipe =
     (case get_default recipe ''benchmark'' (PDict []) of
        PDict b0 \<Rightarrow>
          (let framework = get_default b0 ''framework'' (PStr ''llama-benchy'') in
           if \<not> hashable framework then Inl TypeError
           else if \<not> in_supported framework then Inl (UnsupportedFramework framework)
           else if truthy (get_default (fill_benchmark b0) ''enabled'' (PBool False))
                  \<and> framework = PStr ''llama-benchy'' \<and> \<not> which
             then Inl MissingDependency
           else Inr (AList.update ''benchmark'' (PDict (fill_benchmark b0))
                       (snd (setdefault recipe ''benchmark'' (PDict [])))))
      | _ \<Rightarrow> Inl AttributeError)"
  by (simp add: validate_recipe_benchmark_config_def split_beta fst_setdefault as_dict_def Let_def
      fill_benchmark_def get_default_def map_of_snd_setdefault split: pyval.splits)

lemma fill_benchmark_keys:
  "\<exists>e f a. map_of (fill_benchmark b0) ''enabled'' = Some e
     \<and> map_of (fill_benchmark b0) ''framework'' = Some f
     \<and> map_of (fill_benchmark b0) ''args'' = Some a"
  by (auto simp: fill_benchmark_def map_of_snd_setdefault)

lemma fill_benchmark_idem: "fill_benchmark (fill_benchmark b0) = fill_benchmark b0"
proof -
  obtain e f a where "map_of (fill_benchmark b0) ''enabled'' = Some e"
    and "map_of (fill_benchmark b0) ''framework'' = Some f"
    and "map_of (fill_benchmark b0) ''args'' = Some a"
    using fill_benchmark_keys by blast
  then show ?thesis
    by (subst fill_benchmark_def) (simp add: snd_setdefault_present)
qed

lemma get_default_fill_framework:
  "get_default (fill_benchmark b0) ''framework'' v = get_default b0 ''framework'' (PStr ''llama-benchy'')"
  by (auto simp: get_default_def fill_benchmark_def map_of_snd_setdefault split: option.splits)

text \<open>
  Claim C5. For every recipe that has no key \<^verbatim>\<open>benchmark\<close>, validation succeeds, whether
  or not the executable is installed. The recipe it leaves is the old one with one entry
  added at the end: \<^verbatim>\<open>benchmark\<close>, holding \<^verbatim>\<open>enabled\<close> false, \<^verbatim>\<open>framework\<close>
  \<^verbatim>\<open>"llama-benchy"\<close> and \<^verbatim>\<open>args\<close> the empty dict. Every other key reads as before.
\<close>

theorem validate_missing_benchmark:
  assumes "map_of recipe ''benchmark'' = None"
  shows "\<exists>recipe'.
      validate_recipe_benchmark_config which recipe = Inr recipe'
    \<and> recipe' = recipe @ [(''benchmark'',
          PDict [(''enabled'', PBool False), (''framework'', PStr ''llama-benchy''), (''args'', PDict [])])]
    \<and> map_of recipe' ''benchmark'' =
          Some (PDict [(''enabled'', PBool False), (''framework'', PStr ''llama-benchy''), (''args'', PDict [])])
    \<and> (\<forall>k. k \<noteq> ''benchmark'' \<longrightarrow> map_of recipe' k = map_of recipe k)"
proof -
  let ?b = "PDict [(''enabled'', PBool False), (''framework'', PStr ''llama-benchy''), (''args'', PDict [])]"
  have run: "validate_recipe_benchmark_config which recipe = Inr (recipe @ [(''benchmark'', ?b)])"
    using assms
    by (simp add: validate_unfold fill_benchmark_def setdefault_def in_supported_def
        SUPPORTED_BENCHMARK_FRAMEWORKS_def get_default_def truthy_def update_snoc_absent)
  have here: "map_of (recipe @ [(''benchmark'', ?b)]) ''benchmark'' = Some ?b"
    using assms by (simp add: map_add_def)
  have frame: "\<forall>k. k \<noteq> ''benchmark'' \<longrightarrow> map_of (recipe @ [(''benchmark'', ?b)]) k = map_of recipe k"
    by (intro allI impI map_of_snoc_other)
  from run here frame show ?thesis by blast
qed

theorem validate_missing_benchmark_witness:
  "map_of [(''defaults'', PDict [(''port'', PInt 8080)])] ''benchmark'' = None
   \<and> validate_recipe_benchmark_config False [(''defaults'', PDict [(''port'', PInt 8080)])] =
       Inr [(''defaults'', PDict [(''port'', PInt 8080)]),
            (''benchmark'',
             PDict [(''enabled'', PBool False), (''framework'', PStr ''llama-benchy''), (''args'', PDict [])])]"
  using validate_missing_benchmark [of "[(''defaults'', PDict [(''port'', PInt 8080)])]" False]
  by simp

text \<open>
  Claim C6. When the benchmark block of a recipe has a \<^verbatim>\<open>framework\<close> that is not in the
  supported set, validation raises the "unsupported framework" error, whatever \<^verbatim>\<open>enabled\<close>
  holds and whether or not the executable is installed. The framework is a value that can
  be looked up in a set (a string, as the data model has it, or any other hashable value).
\<close>

theorem validate_unsupported_framework:
  assumes "map_of recipe ''benchmark'' = Some (PDict benchmark)"
    and "map_of benchmark ''framework'' = Some framework"
    and "hashable framework"
    and "framework \<notin> PStr ` SUPPORTED_BENCHMARK_FRAMEWORKS"
  shows "validate_recipe_benchmark_config which recipe = Inl (UnsupportedFramework framework)"
proof -
  have "\<not> in_supported framework"
    using assms(4) by (auto simp: in_supported_def split: pyval.splits)
  with assms(1,2,3) show ?thesis
    by (simp add: validate_unfold get_default_def)
qed

theorem validate_unsupported_framework_witness:
  "validate_recipe_benchmark_config True
     [(''benchmark'', PDict [(''enabled'', PBool True), (''framework'', PStr ''vllm-bench'')])] =
       Inl (UnsupportedFramework (PStr ''vllm-bench''))
   \<and> validate_recipe_benchmark_config False
     [(''benchmark'', PDict [(''enabled'', PBool False), (''framework'', PStr ''vllm-bench'')])] =
       Inl (UnsupportedFramework (PStr ''vllm-bench''))"
proof -
  have ns: "PStr ''vllm-bench'' \<notin> PStr ` SUPPORTED_BENCHMARK_FRAMEWORKS"
    by (simp add: SUPPORTED_BENCHMARK_FRAMEWORKS_def)
  have a: "validate_recipe_benchmark_config True
     [(''benchmark'', PDict [(''enabled'', PBool True), (''framework'', PStr ''vllm-bench'')])] =
       Inl (UnsupportedFramework (PStr ''vllm-bench''))"
    by (rule validate_unsupported_framework
          [where benchmark = "[(''enabled'', PBool True), (''framework'', PStr ''vllm-bench'')]"])
       (simp_all add: ns)
  have b: "validate_recipe_benchmark_config False
     [(''benchmark'', PDict [(''enabled'', PBool False), (''framework'', PStr ''vllm-bench'')])] =
       Inl (UnsupportedFramework (PStr ''vllm-bench''))"
    by (rule validate_unsupported_framework
          [where benchmark = "[(''enabled'', PBool False), (''framework'', PStr ''vllm-bench'')]"])
       (simp_all add: ns)
  from a b show ?thesis by simp
qed

text \<open>
  Claim C7. Validation is idempotent: when it succeeds on a recipe, running it again on the
  recipe it left (with the same search path) succeeds and leaves that recipe as it is.
\<close>

theorem validate_idempotent:
  assumes "validate_recipe_benchmark_config which recipe = Inr recipe'"
  shows "validate_recipe_benchmark_config which recipe' = Inr recipe'"
proof -
  from assms obtain b0 where b0: "get_default recipe ''benchmark'' (PDict []) = PDict b0"
    by (auto simp: validate_unfold split: pyval.splits)
  let ?fw = "get_default b0 ''framework'' (PStr ''llama-benchy'')"
  from assms b0 have c: "hashable ?fw" "in_supported ?fw"
     "\<not> (truthy (get_default (fill_benchmark b0) ''enabled'' (PBool False))
          \<and> ?fw = PStr ''llama-benchy'' \<and> \<not> which)"
    and r: "recipe' = AList.update ''benchmark'' (PDict (fill_benchmark b0))
                        (snd (setdefault recipe ''benchmark'' (PDict [])))"
    by (auto simp: validate_unfold Let_def split: if_splits)
  have m: "map_of recipe' ''benchmark'' = Some (PDict (fill_benchmark b0))"
    by (simp add: r update_conv')
  have u: "AList.update ''benchmark'' (PDict (fill_benchmark b0)) recipe' = recipe'"
    using m by (rule update_triv)
  show ?thesis
    using c m u
    by (simp add: validate_unfold [of which recipe'] get_default_def [of recipe']
        fill_benchmark_idem get_default_fill_framework snd_setdefault_present)
qed

theorem validate_idempotent_witness:
  "validate_recipe_benchmark_config True
     [(''benchmark'', PDict [(''enabled'', PBool True)]), (''defaults'', PDict [(''port'', PInt 8080)])] =
     Inr [(''benchmark'',
           PDict [(''enabled'', PBool True), (''framework'', PStr ''llama-benchy''), (''args'', PDict [])]),
          (''defaults'', PDict [(''port'', PInt 8080)])]
   \<and> validate_recipe_benchmark_config True
     [(''benchmark'',
       PDict [(''enabled'', PBool True), (''framework'', PStr ''llama-benchy''), (''args'', PDict [])]),
      (''defaults'', PDict [(''port'', PInt 8080)])] =
     Inr [(''benchmark'',
           PDict [(''enabled'', PBool True), (''framework'', PStr ''llama-benchy''), (''args'', PDict [])]),
          (''defaults'', PDict [(''port'', PInt 8080)])]"
proof -
  have first: "validate_recipe_benchmark_config True
     [(''benchmark'', PDict [(''enabled'', PBool True)]), (''defaults'', PDict [(''port'', PInt 8080)])] =
     Inr [(''benchmark'',
           PDict [(''enabled'', PBool True), (''framework'', PStr ''llama-benchy''), (''args'', PDict [])]),
          (''defaults'', PDict [(''port'', PInt 8080)])]"
    by (simp add: validate_unfold fill_benchmark_def setdefault_def in_supported_def
        SUPPORTED_BENCHMARK_FRAMEWORKS_def get_default_def truthy_def)
  from first validate_idempotent [OF first] show ?thesis by simp
qed

section \<open>Properties of the command builder\<close>

lemma append_cli_arg_prefix:
  "append_cli_arg rt ex cmd kv = cmd @ append_cli_arg rt ex [] kv"
  by (cases kv) (simp add: append_cli_arg_def Let_def split: pyval.splits)

lemma foldl_append_cli_arg:
  "foldl (append_cli_arg rt ex) cmd args = cmd @ concat (map (append_cli_arg rt ex []) args)"
proof (induction args arbitrary: cmd)
  case Nil
  then show ?case by simp
next
  case (Cons kv args)
  have "foldl (append_cli_arg rt ex) (kv_cmd) args = kv_cmd @ concat (map (append_cli_arg rt ex []) args)"
    if "kv_cmd = append_cli_arg rt ex cmd kv" for kv_cmd
    by (rule Cons.IH)
  moreover have "append_cli_arg rt ex cmd kv = cmd @ append_cli_arg rt ex [] kv"
    by (rule append_cli_arg_prefix)
  ultimately show ?case by simp
qed

lemma int_str_examples: "int_str 1 = ''1''" "int_str 2 = ''2''" "int_str 8080 = ''8080''" "int_str 2048 = ''2048''" "int_str 0 = ''0''"
  by (simp_all add: int_str_def nat_digits.simps digit_char_def)

text \<open>
  Claim C2, as amended. The builder converts each entry of the argument mapping on its own,
  in the order of the mapping. An entry whose key is in the exclusion set (the command
  builder passes \<^verbatim>\<open>base_url\<close> and \<^verbatim>\<open>model\<close>) gives no token. Every other entry
  follows the rules: true gives the flag alone, false gives nothing, an empty list gives
  nothing, a list with elements gives the flag and then the string form of each element,
  \<^verbatim>\<open>[1,2]\<close> under \<^verbatim>\<open>foo_bar\<close> gives \<^verbatim>\<open>--foo-bar 1 2\<close>, and a scalar (none, integer,
  float, string) gives the flag and its string form. The flag is two hyphens followed by
  the key with each underscore replaced by a hyphen.
\<close>

theorem append_cli_args_rules:
  assumes "excludes = (case exclude_keys of None \<Rightarrow> {} | Some s \<Rightarrow> s)"
  shows "append_cli_args_from_dict rt cmd args exclude_keys =
           cmd @ concat (map (\<lambda>kv. append_cli_args_from_dict rt [] [kv] exclude_keys) args)
    \<and> (key \<in> excludes \<longrightarrow> append_cli_args_from_dict rt [] [(key, v)] exclude_keys = [])
    \<and> (key \<notin> excludes \<longrightarrow>
          append_cli_args_from_dict rt [] [(key, PBool True)] exclude_keys = [flag_of key]
        \<and> append_cli_args_from_dict rt [] [(key, PBool False)] exclude_keys = []
        \<and> append_cli_args_from_dict rt [] [(key, PList [])] exclude_keys = []
        \<and> append_cli_args_from_dict rt [] [(key, PList (x # xs))] exclude_keys =
              flag_of key # map (py_str rt) (x # xs)
        \<and> append_cli_args_from_dict rt [] [(key, PNone)] exclude_keys = [flag_of key, ''None'']
        \<and> append_cli_args_from_dict rt [] [(key, PInt i)] exclude_keys = [flag_of key, int_str i]
        \<and> append_cli_args_from_dict rt [] [(key, PFloat s f)] exclude_keys = [flag_of key, s]
        \<and> append_cli_args_from_dict rt [] [(key, PStr s)] exclude_keys = [flag_of key, s])
    \<and> append_cli_args_from_dict rt [] [(''foo_bar'', PList [PInt 1, PInt 2])] None =
          [''--foo-bar'', ''1'', ''2'']
    \<and> length (flag_of key) = length key + 2
    \<and> take 2 (flag_of key) = ''--''
    \<and> (\<forall>n < length key. flag_of key ! (n + 2) = (if key ! n = CHR ''_'' then CHR ''-'' else key ! n))"
proof -
  have each: "append_cli_args_from_dict rt cmd args exclude_keys =
           cmd @ concat (map (\<lambda>kv. append_cli_args_from_dict rt [] [kv] exclude_keys) args)"
    by (simp add: append_cli_args_from_dict_def foldl_append_cli_arg)
  have one: "append_cli_args_from_dict rt [] [(key, val)] exclude_keys = append_cli_arg rt excludes [] (key, val)"
    for val
    by (simp add: append_cli_args_from_dict_def assms)
  have skipped: "key \<in> excludes \<longrightarrow> append_cli_args_from_dict rt [] [(key, v)] exclude_keys = []"
    by (simp add: one append_cli_arg_def)
  have converted: "key \<notin> excludes \<longrightarrow>
          append_cli_args_from_dict rt [] [(key, PBool True)] exclude_keys = [flag_of key]
        \<and> append_cli_args_from_dict rt [] [(key, PBool False)] exclude_keys = []
        \<and> append_cli_args_from_dict rt [] [(key, PList [])] exclude_keys = []
        \<and> append_cli_args_from_dict rt [] [(key, PList (x # xs))] exclude_keys =
              flag_of key # map (py_str rt) (x # xs)
        \<and> append_cli_args_from_dict rt [] [(key, PNone)] exclude_keys = [flag_of key, ''None'']
        \<and> append_cli_args_from_dict rt [] [(key, PInt i)] exclude_keys = [flag_of key, int_str i]
        \<and> append_cli_args_from_dict rt [] [(key, PFloat s f)] exclude_keys = [flag_of key, s]
        \<and> append_cli_args_from_dict rt [] [(key, PStr s)] exclude_keys = [flag_of key, s]"
    by (simp add: one append_cli_arg_def py_str_def)
  have example: "append_cli_args_from_dict rt [] [(''foo_bar'', PList [PInt 1, PInt 2])] None =
          [''--foo-bar'', ''1'', ''2'']"
    by (simp add: append_cli_args_from_dict_def append_cli_arg_def py_str_def flag_of_def int_str_examples)
  have flag: "length (flag_of key) = length key + 2 \<and> take 2 (flag_of key) = ''--''
    \<and> (\<forall>n < length key. flag_of key ! (n + 2) = (if key ! n = CHR ''_'' then CHR ''-'' else key ! n))"
    by (simp add: flag_of_def)
  from each skipped converted example flag show ?thesis by blast
qed

theorem append_cli_args_rules_witness:
  "append_cli_args_from_dict example_runtime [''llama-benchy'']
     [(''foo_bar'', PList [PInt 1, PInt 2]), (''model'', PStr ''m''), (''dry_run'', PBool True)]
     (Some {''base_url'', ''model''}) =
   [''llama-benchy'', ''--foo-bar'', ''1'', ''2'', ''--dry-run'']"
proof -
  have ex: "{''base_url'', ''model''} = (case Some {''base_url'', ''model''} of None \<Rightarrow> {} | Some s \<Rightarrow> s)"
    by simp
  note r1 = append_cli_args_rules [OF ex, of example_runtime "[''llama-benchy'']"
      "[(''foo_bar'', PList [PInt 1, PInt 2]), (''model'', PStr ''m''), (''dry_run'', PBool True)]"
      "''foo_bar''" "PNone" "PInt 1" "[PInt 2]"]
  note r2 = append_cli_args_rules [OF ex, of example_runtime "[]" "[]" "''model''" "PStr ''m''"]
  note r3 = append_cli_args_rules [OF ex, of example_runtime "[]" "[]" "''dry_run''"]
  have a: "append_cli_args_from_dict example_runtime [] [(''foo_bar'', PList [PInt 1, PInt 2])]
      (Some {''base_url'', ''model''}) = [''--foo-bar'', ''1'', ''2'']"
    using r1 by (simp add: flag_of_def py_str_def int_str_examples)
  have b: "append_cli_args_from_dict example_runtime [] [(''model'', PStr ''m'')]
      (Some {''base_url'', ''model''}) = []"
    using r2 by simp
  have c: "append_cli_args_from_dict example_runtime [] [(''dry_run'', PBool True)]
      (Some {''base_url'', ''model''}) = [''--dry-run'']"
    using r3 by (simp add: flag_of_def)
  from r1 have "append_cli_args_from_dict example_runtime [''llama-benchy'']
     [(''foo_bar'', PList [PInt 1, PInt 2]), (''model'', PStr ''m''), (''dry_run'', PBool True)]
     (Some {''base_url'', ''model''}) =
     [''llama-benchy''] @ concat (map (\<lambda>kv. append_cli_args_from_dict example_runtime [] [kv]
        (Some {''base_url'', ''model''}))
      [(''foo_bar'', PList [PInt 1, PInt 2]), (''model'', PStr ''m''), (''dry_run'', PBool True)])"
    by (rule conjunct1)
  then show ?thesis
    by (simp only: list.map concat.simps a b c append_Cons append_Nil append_Nil2)
qed

text \<open>The claim as stated, for every entry, fails on an excluded key: \<^verbatim>\<open>model\<close> in the
  arguments gives no \<^verbatim>\<open>--model m\<close>.\<close>

theorem append_cli_args_excluded_counterexample:
  "append_cli_args_from_dict example_runtime [] [(''model'', PStr ''m'')] (Some {''base_url'', ''model''})
     \<noteq> [''--model'', ''m'']"
  by (simp add: append_cli_args_from_dict_def append_cli_arg_def)


section \<open>The end-to-end dry run\<close>

lemma map_of_fill_benchmark_present:
  "map_of b0 k = Some x \<Longrightarrow> map_of (fill_benchmark b0) k = Some x"
  by (auto simp: fill_benchmark_def map_of_snd_setdefault)

lemma default_entries:
  "append_cli_arg rt {''base_url'', ''model''} [] (''temperature'', PFloat ''0.5'' f) = [''--temperature'', ''0.5'']"
  "append_cli_arg rt {''base_url'', ''model''} [] (''pp'', PList [PInt 2048]) = [''--pp'', ''2048'']"
  "append_cli_arg rt {''base_url'', ''model''} [] (''depth'', PList [PInt 0]) = [''--depth'', ''0'']"
  "append_cli_arg rt {''base_url'', ''model''} [] (''save_result'', PStr ''test.md'') = [''--save-result'', ''test.md'']"
  "append_cli_arg rt {''base_url'', ''model''} [] (''enable_prefix_caching'', PBool True) = [''--enable-prefix-caching'']"
  by (simp_all add: append_cli_arg_def flag_of_def py_str_def int_str_examples)

lemma default_tokens:
  "append_cli_args_from_dict rt cmd
       [(''temperature'', PFloat ''0.5'' f), (''pp'', PList [PInt 2048]),
        (''depth'', PList [PInt 0]), (''save_result'', PStr ''test.md''),
        (''enable_prefix_caching'', PBool True)] (Some {''base_url'', ''model''}) =
     cmd @ [''--temperature'', ''0.5'', ''--pp'', ''2048'', ''--depth'', ''0'',
          ''--save-result'', ''test.md'', ''--enable-prefix-caching'']"
proof -
  have "append_cli_args_from_dict rt cmd
       [(''temperature'', PFloat ''0.5'' f), (''pp'', PList [PInt 2048]),
        (''depth'', PList [PInt 0]), (''save_result'', PStr ''test.md''),
        (''enable_prefix_caching'', PBool True)] (Some {''base_url'', ''model''}) =
      cmd @ concat (map (append_cli_arg rt {''base_url'', ''model''} [])
       [(''temperature'', PFloat ''0.5'' f), (''pp'', PList [PInt 2048]),
        (''depth'', PList [PInt 0]), (''save_result'', PStr ''test.md''),
        (''enable_prefix_caching'', PBool True)])"
    unfolding append_cli_args_from_dict_def Let_def option.case
    by (rule foldl_append_cli_arg)
  also have "\<dots> = cmd @ [''--temperature'', ''0.5'', ''--pp'', ''2048'', ''--depth'', ''0'',
          ''--save-result'', ''test.md'', ''--enable-prefix-caching'']"
    by (simp only: list.map concat.simps default_entries append_Cons append_Nil append_Nil2)
  finally show ?thesis .
qed

lemma build_command_tokens:
  assumes "map_of recipe ''defaults'' = Some (PDict defaults)"
    and "map_of defaults ''port'' = Some (PInt 8080)"
    and "map_of recipe ''benchmark'' = Some (PDict benchmark)"
    and "map_of benchmark ''args'' = Some (PDict [(''temperature'', PFloat ''0.5'' f)])"
  shows "map_sum id fst (build_llama_benchy_command rt recipe model) =
     Inr [''llama-benchy'', ''--base-url'', ''http://localhost:8080/v1'', ''--model'', model,
          ''--temperature'', ''0.5'', ''--pp'', ''2048'', ''--depth'', ''0'',
          ''--save-result'', ''test.md'', ''--enable-prefix-caching'']"
proof -
  let ?args = "apply_llama_benchy_defaults [(''temperature'', PFloat ''0.5'' f)]"
  let ?recipe1 = "AList.update ''benchmark'' (PDict (AList.update ''args'' (PDict ?args) benchmark)) recipe"
  have args: "?args = [(''temperature'', PFloat ''0.5'' f), (''pp'', PList [PInt 2048]),
      (''depth'', PList [PInt 0]), (''save_result'', PStr ''test.md''),
      (''enable_prefix_caching'', PBool True)]"
    by (simp add: apply_llama_benchy_defaults_def setdefault_def)
  have "map_of ?recipe1 ''defaults'' = Some (PDict defaults)"
    using assms(1) by (simp add: update_conv')
  then have url: "get_recipe_base_url rt ?recipe1 = Inr ''http://localhost:8080/v1''"
    using assms(2) by (simp add: get_recipe_base_url_def get_default_def as_dict_def py_int_def int_str_examples)
  have toks: "append_cli_args_from_dict rt
       [''llama-benchy'', ''--base-url'', ''http://localhost:8080/v1'', ''--model'', model]
       ?args (Some {''base_url'', ''model''}) =
     [''llama-benchy'', ''--base-url'', ''http://localhost:8080/v1'', ''--model'', model,
          ''--temperature'', ''0.5'', ''--pp'', ''2048'', ''--depth'', ''0'',
          ''--save-result'', ''test.md'', ''--enable-prefix-caching'']"
    by (simp only: args default_tokens append_Cons append_Nil)
  have sd: "setdefault benchmark ''args'' (PDict []) = (PDict [(''temperature'', PFloat ''0.5'' f)], benchmark)"
    using assms(4) by (rule setdefault_present)
  have gd: "get_default recipe ''benchmark'' (PDict []) = PDict benchmark"
    using assms(3) by (simp add: get_default_def)
  have "build_llama_benchy_command rt recipe model =
      Inr (append_cli_args_from_dict rt
       [''llama-benchy'', ''--base-url'', ''http://localhost:8080/v1'', ''--model'', model]
       ?args (Some {''base_url'', ''model''}), ?recipe1)"
    using assms(3) url
    by (simp add: build_llama_benchy_command_def gd sd as_dict_def Let_def)
  then show ?thesis
    by (simp only: toks map_sum.simps fst_conv)
qed

lemma validate_enabled_recipe:
  assumes "map_of recipe ''benchmark'' = Some (PDict benchmark)"
    and "map_of benchmark ''framework'' = None \<or> map_of benchmark ''framework'' = Some (PStr ''llama-benchy'')"
    and "which"
  shows "validate_recipe_benchmark_config which recipe =
     Inr (AList.update ''benchmark'' (PDict (fill_benchmark benchmark)) recipe)"
proof -
  have fw: "get_default benchmark ''framework'' (PStr ''llama-benchy'') = PStr ''llama-benchy''"
    using assms(2) by (auto simp: get_default_def)
  show ?thesis
    using assms(1,3)
    by (simp add: validate_unfold get_default_def [of recipe] fw in_supported_def
        SUPPORTED_BENCHMARK_FRAMEWORKS_def snd_setdefault_present)
qed

text \<open>
  Claim C1, as amended. For a recipe with \<^verbatim>\<open>defaults.port\<close> 8080, \<^verbatim>\<open>benchmark.enabled\<close>
  true and \<^verbatim>\<open>benchmark.args\<close> holding only \<^verbatim>\<open>temperature: 0.5\<close>, with the executable
  installed, the builder gives the command
  \<^verbatim>\<open>llama-benchy --base-url http://localhost:8080/v1 --model __from_v1_models__ --temperature 0.5 --pp 2048 --depth 0 --save-result test.md --enable-prefix-caching\<close>:
  the argument of the recipe comes first and the defaults follow, since a default is added
  at the end of the mapping. The same command is built from the recipe as validation
  leaves it, and the dry run returns 0 with the world unchanged: no request, no sleep.
\<close>

theorem dry_run_command:
  assumes "map_of recipe ''defaults'' = Some (PDict defaults)"
    and "map_of defaults ''port'' = Some (PInt 8080)"
    and "map_of recipe ''benchmark'' = Some (PDict benchmark)"
    and "map_of benchmark ''enabled'' = Some (PBool True)"
    and "map_of benchmark ''args'' = Some (PDict [(''temperature'', PFloat ''0.5'' (Finite (1 / 2)))])"
    and "map_of benchmark ''framework'' = None
         \<or> map_of benchmark ''framework'' = Some (PStr ''llama-benchy'')"
    and "which_llama_benchy e"
  shows "map_sum id fst (build_llama_benchy_command rt recipe ''__from_v1_models__'') =
      Inr [''llama-benchy'', ''--base-url'', ''http://localhost:8080/v1'',
           ''--model'', ''__from_v1_models__'', ''--temperature'', ''0.5'', ''--pp'', ''2048'',
           ''--depth'', ''0'', ''--save-result'', ''test.md'', ''--enable-prefix-caching'']
    \<and> (\<exists>recipe'.
          validate_recipe_benchmark_config (which_llama_benchy e) recipe = Inr recipe'
        \<and> map_sum id fst (build_llama_benchy_command rt recipe' ''__from_v1_models__'') =
            Inr [''llama-benchy'', ''--base-url'', ''http://localhost:8080/v1'',
                 ''--model'', ''__from_v1_models__'', ''--temperature'', ''0.5'', ''--pp'', ''2048'',
                 ''--depth'', ''0'', ''--save-result'', ''test.md'', ''--enable-prefix-caching''])
    \<and> run_recipe_benchmark fuel rt e recipe True w = Some (Inr 0, w)"
proof -
  let ?cmd = "[''llama-benchy'', ''--base-url'', ''http://localhost:8080/v1'',
           ''--model'', ''__from_v1_models__'', ''--temperature'', ''0.5'', ''--pp'', ''2048'',
           ''--depth'', ''0'', ''--save-result'', ''test.md'', ''--enable-prefix-caching'']"
  let ?recipe' = "AList.update ''benchmark'' (PDict (fill_benchmark benchmark)) recipe"
  have direct: "map_sum id fst (build_llama_benchy_command rt recipe ''__from_v1_models__'') = Inr ?cmd"
    using assms(1,2,3,5) by (rule build_command_tokens)
  have val: "validate_recipe_benchmark_config (which_llama_benchy e) recipe = Inr ?recipe'"
    using assms(3,6,7) by (rule validate_enabled_recipe)
  have d': "map_of ?recipe' ''defaults'' = Some (PDict defaults)"
    using assms(1) by (simp add: update_conv')
  have b': "map_of ?recipe' ''benchmark'' = Some (PDict (fill_benchmark benchmark))"
    by (simp add: update_conv')
  have a': "map_of (fill_benchmark benchmark) ''args'' = Some (PDict [(''temperature'', PFloat ''0.5'' (Finite (1 / 2)))])"
    using assms(5) by (rule map_of_fill_benchmark_present)
  have e': "map_of (fill_benchmark benchmark) ''enabled'' = Some (PBool True)"
    using assms(4) by (rule map_of_fill_benchmark_present)
  have built: "map_sum id fst (build_llama_benchy_command rt ?recipe' ''__from_v1_models__'') = Inr ?cmd"
    using d' assms(2) b' a' by (rule build_command_tokens)
  then obtain r where r: "build_llama_benchy_command rt ?recipe' ''__from_v1_models__'' = Inr (?cmd, r)"
    by (cases "build_llama_benchy_command rt ?recipe' ''__from_v1_models__''") auto
  have run: "run_recipe_benchmark fuel rt e recipe True w = Some (Inr 0, w)"
    unfolding run_recipe_benchmark_def val
    by (simp add: subscript_def b' e' truthy_def r)
  from direct val built run show ?thesis by blast
qed

theorem dry_run_command_witness:
  "map_sum id fst (build_llama_benchy_command example_runtime example_recipe ''__from_v1_models__'') =
      Inr [''llama-benchy'', ''--base-url'', ''http://localhost:8080/v1'',
           ''--model'', ''__from_v1_models__'', ''--temperature'', ''0.5'', ''--pp'', ''2048'',
           ''--depth'', ''0'', ''--save-result'', ''test.md'', ''--enable-prefix-caching'']
   \<and> run_recipe_benchmark 0 example_runtime (example_env []) example_recipe True example_world =
      Some (Inr 0, example_world)"
  using dry_run_command [of example_recipe "[(''port'', PInt 8080)]"
      "[(''enabled'', PBool True), (''args'', PDict [(''temperature'', PFloat ''0.5'' (Finite (1 / 2)))])]"
      "example_env []" example_runtime 0 example_world]
  by (simp add: example_recipe_def example_env_def)

text \<open>The order the claim states, with \<^verbatim>\<open>--temperature 0.5\<close> last, is not the order of
  the command.\<close>

theorem dry_run_command_counterexample:
  "map_sum id fst (build_llama_benchy_command example_runtime example_recipe ''__from_v1_models__'') \<noteq>
      Inr [''llama-benchy'', ''--base-url'', ''http://localhost:8080/v1'',
           ''--model'', ''__from_v1_models__'', ''--pp'', ''2048'', ''--depth'', ''0'',
           ''--save-result'', ''test.md'', ''--enable-prefix-caching'', ''--temperature'', ''0.5'']"
proof -
  have "map_sum id fst (build_llama_benchy_command example_runtime example_recipe ''__from_v1_models__'') =
      Inr [''llama-benchy'', ''--base-url'', ''http://localhost:8080/v1'',
           ''--model'', ''__from_v1_models__'', ''--temperature'', ''0.5'', ''--pp'', ''2048'',
           ''--depth'', ''0'', ''--save-result'', ''test.md'', ''--enable-prefix-caching'']"
    by (rule build_command_tokens [where defaults = "[(''port'', PInt 8080)]"
          and benchmark = "[(''enabled'', PBool True),
             (''args'', PDict [(''temperature'', PFloat ''0.5'' (Finite (1 / 2)))])]"])
       (simp_all add: example_recipe_def)
  then show ?thesis by simp
qed

section \<open>Properties of recipe path resolution\<close>



section \<open>Properties of the readiness prober\<close>

lemma poll_deadline:
  "\<not> now w < deadline \<Longrightarrow>
     poll (Suc fuel) ep url deadline interval_seconds last_error w = Some (Inr None, last_error, w)"
  by simp

lemma poll_retry:
  assumes "0 \<le> interval_seconds" and "now w < deadline"
    and "ep url (requests w) = (resp, took)" and "recorded_error resp = Some err"
  shows "poll (Suc fuel) ep url deadline interval_seconds last_error w =
         poll fuel ep url deadline interval_seconds err (after_retry took interval_seconds w)"
  using assms
  by (cases w)
     (auto simp: recorded_error_def sleep_then_def py_sleep_def after_retry_def Let_def
      split: response.splits sum.splits option.splits)

lemma poll_success:
  assumes "now w < deadline"
    and "ep url (requests w) = (Json payload, took)" and "first_model payload = Inr (Some model)"
  shows "poll (Suc fuel) ep url deadline interval_seconds last_error w =
         Some (Inr (Some model), last_error, after_request took w)"
  using assms by (cases w) (simp add: after_request_def Let_def)

lemma poll_returns:
  assumes "0 \<le> interval_seconds" and "0 < eps"
    and "\<forall>i. eps \<le> snd (ep url i) + of_int interval_seconds"
  shows "deadline - now w \<le> of_nat k * eps \<Longrightarrow>
     \<exists>r err w'. poll (Suc k) ep url deadline interval_seconds last_error w = Some (Inr r, err, w')
        \<and> ((\<forall>i. recorded_error (fst (ep url i)) \<noteq> None) \<longrightarrow> r = None)
        \<and> (r = None \<longrightarrow> \<not> now w' < deadline)"
proof (induction k arbitrary: w last_error)
  case 0
  then have "\<not> now w < deadline" by simp
  then show ?case by (simp add: poll_deadline)
next
  case (Suc k)
  show ?case
  proof (cases "now w < deadline")
    case False
    then show ?thesis by (simp add: poll_deadline)
  next
    case True
    obtain resp took where ep: "ep url (requests w) = (resp, took)"
      by (cases "ep url (requests w)")
    show ?thesis
    proof (cases "recorded_error resp")
      case (Some err)
      have step: "poll (Suc (Suc k)) ep url deadline interval_seconds last_error w =
          poll (Suc k) ep url deadline interval_seconds err (after_retry took interval_seconds w)"
        using assms(1) True ep Some by (rule poll_retry)
      have "eps \<le> took + of_int interval_seconds"
        using assms(3) ep by (metis snd_conv)
      moreover have "deadline - now w \<le> of_nat k * eps + eps"
        using Suc.prems by (simp add: algebra_simps)
      ultimately have "deadline - now (after_retry took interval_seconds w) \<le> of_nat k * eps"
        by (simp add: after_retry_def)
      from Suc.IH [OF this] show ?thesis
        by (simp only: step)
    next
      case None
      then obtain payload model where resp: "resp = Json payload"
        and fm: "first_model payload = Inr (Some model)"
        by (auto simp: recorded_error_def split: response.splits sum.splits option.splits)
      have ret: "poll (Suc (Suc k)) ep url deadline interval_seconds last_error w =
          Some (Inr (Some model), last_error, after_request took w)"
        using True ep [unfolded resp] fm by (rule poll_success)
      have "recorded_error (fst (ep url (requests w))) = None"
        using ep None by simp
      then have "\<not> (\<forall>i. recorded_error (fst (ep url i)) \<noteq> None)"
        by blast
      with ret show ?thesis by simp
    qed
  qed
qed

lemma measure_exists:
  assumes "0 < (eps :: rat)"
  shows "\<exists>k :: nat. x \<le> of_nat k * eps"
proof -
  obtain k :: nat where "x / eps \<le> of_nat k"
    using real_arch_simple [of "x / eps"] by blast
  then show ?thesis
    using assms by (auto simp: pos_divide_le_eq)
qed

lemma scan_keys_first:
  assumes "\<forall>k \<in> set before. \<forall>s. map_of first k = Some (PStr s) \<longrightarrow> py_strip s = []"
    and "map_of first key = Some (PStr v)" and "py_strip v \<noteq> []"
  shows "scan_keys first (before @ key # rest) = Some (py_strip v)"
  using assms(1)
proof (induction before)
  case Nil
  then show ?case using assms(2,3) by simp
next
  case (Cons k ks)
  then show ?case
    by (auto split: option.splits pyval.splits)
qed

lemma scan_keys_none:
  assumes "\<forall>k \<in> set keys. \<forall>s. map_of first k = Some (PStr s) \<longrightarrow> py_strip s = []"
  shows "scan_keys first keys = None"
  using assms by (induction keys) (auto split: option.splits pyval.splits)

text \<open>
  Claim C3, as amended. When the deadline has not passed and the response is a JSON object
  whose \<^verbatim>\<open>data\<close> is a list with a mapping as its first element, the prober returns the
  value of the first of \<^verbatim>\<open>id\<close>, \<^verbatim>\<open>model\<close>, \<^verbatim>\<open>name\<close> that is a string with something
  left after trimming, trimmed (a string of whitespace only is passed over like a missing
  key). It returns at once, whatever fuel is left: one request more and no sleep.
\<close>

theorem prober_returns_first_model:
  assumes "now w < deadline"
    and "ep url (requests w) = (Json (PDict payload), took)"
    and "map_of payload ''data'' = Some (PList (PDict first # rest))"
    and "before @ key # after = [''id'', ''model'', ''name'']"
    and "\<forall>k \<in> set before. \<forall>s. map_of first k = Some (PStr s) \<longrightarrow> py_strip s = []"
    and "map_of first key = Some (PStr v)"
    and "py_strip v \<noteq> []"
  shows "poll (Suc fuel) ep url deadline interval_seconds last_error w =
     Some (Inr (Some (py_strip v)), last_error,
           \<lparr>now = now w + took, requests = Suc (requests w), sleeps = sleeps w\<rparr>)"
proof -
  have "scan_keys first [''id'', ''model'', ''name''] = Some (py_strip v)"
    using scan_keys_first [OF assms(5,6,7), of after] assms(4) by simp
  then have "first_model (PDict payload) = Inr (Some (py_strip v))"
    using assms(3) by (simp add: first_model_def get_default_def)
  with assms(1,2) show ?thesis
    by (simp add: poll_success after_request_def)
qed

theorem prober_returns_first_model_witness:
  "wait_for_models_endpoint_and_get_first_model (Suc 0)
     (scripted [(Json (PDict [(''data'', PList [PDict [(''id'', PStr (CHR 0xA0 # '' m1 ''))]])]), 1)])
     ''http://localhost:8080/v1'' 300 2 example_world =
   Some (Inr (Some ''m1''), ''unknown error'', \<lparr>now = 1, requests = 1, sleeps = 0\<rparr>)"
  unfolding wait_for_models_endpoint_and_get_first_model_def
  using prober_returns_first_model [where w = example_world and deadline = 300
      and ep = "scripted [(Json (PDict [(''data'', PList [PDict [(''id'', PStr (CHR 0xA0 # '' m1 ''))]])]), 1)]"
      and url = "rstrip_slash ''http://localhost:8080/v1'' @ ''/models''"
      and payload = "[(''data'', PList [PDict [(''id'', PStr (CHR 0xA0 # '' m1 ''))]])]" and took = 1
      and first = "[(''id'', PStr (CHR 0xA0 # '' m1 ''))]" and rest = "[]"
      and before = "[]" and key = "''id''" and after = "[''model'', ''name'']" and v = "CHR 0xA0 # '' m1 ''"
      and fuel = 0 and interval_seconds = 2 and last_error = "''unknown error''"]
  by (simp add: scripted_def example_world_def py_strip_def is_space_def)

text \<open>With \<^verbatim>\<open>id\<close> a string of two spaces and \<^verbatim>\<open>model\<close> "m", the first non-empty string
  is the one under \<^verbatim>\<open>id\<close>, whose trimmed form is empty; the prober returns "m".\<close>

theorem prober_blank_id_counterexample:
  "map_option fst (wait_for_models_endpoint_and_get_first_model (Suc 0)
     (scripted [(Json (PDict [(''data'', PList [PDict [(''id'', PStr ''  ''), (''model'', PStr ''m'')]])]), 1)])
     ''http://localhost:8080/v1'' 300 2 example_world) = Some (Inr (Some ''m''))
   \<and> map_option fst (wait_for_models_endpoint_and_get_first_model (Suc 0)
     (scripted [(Json (PDict [(''data'', PList [PDict [(''id'', PStr ''  ''), (''model'', PStr ''m'')]])]), 1)])
     ''http://localhost:8080/v1'' 300 2 example_world) \<noteq> Some (Inr (Some (py_strip ''  '')))"
  by (simp add: wait_for_models_endpoint_and_get_first_model_def scripted_def example_world_def
      first_model_def get_default_def py_strip_def is_space_def)

text \<open>
  Claim C4. With an interval that can be slept (not negative): a failed request, a body
  that is not JSON and a JSON body without a usable model entry each make the loop record
  the error, sleep for the interval and go on from the world after the request and the
  sleep; when the deadline has passed the loop returns absence, and raises nothing. When
  every turn takes at least some positive time (a positive interval is enough when
  requests take no negative time), the prober does return, with a result and not an
  exception; a result of absence comes with the deadline passed, and the result is absence
  when no response names a model.
\<close>

theorem prober_retries_until_deadline:
  assumes "0 \<le> interval_seconds"
  shows "(now w < deadline \<and> ep url (requests w) = (resp, took) \<and> recorded_error resp = Some err \<longrightarrow>
           poll (Suc fuel) ep url deadline interval_seconds last_error w =
           poll fuel ep url deadline interval_seconds err
             \<lparr>now = now w + took + of_int interval_seconds, requests = Suc (requests w),
              sleeps = Suc (sleeps w)\<rparr>)
    \<and> (\<not> now w < deadline \<longrightarrow>
           poll (Suc fuel) ep url deadline interval_seconds last_error w = Some (Inr None, last_error, w))
    \<and> (0 < eps \<and> (\<forall>i. eps \<le> snd (ep (rstrip_slash base_url @ ''/models'') i) + of_int interval_seconds) \<longrightarrow>
          (\<exists>n r err' w'.
              wait_for_models_endpoint_and_get_first_model n ep base_url timeout_seconds interval_seconds w =
                Some (Inr r, err', w')
            \<and> ((\<forall>i. recorded_error (fst (ep (rstrip_slash base_url @ ''/models'') i)) \<noteq> None) \<longrightarrow> r = None)
            \<and> (r = None \<longrightarrow> \<not> now w' < now w + of_int timeout_seconds)))"
proof -
  have retry: "now w < deadline \<and> ep url (requests w) = (resp, took) \<and> recorded_error resp = Some err \<longrightarrow>
           poll (Suc fuel) ep url deadline interval_seconds last_error w =
           poll fuel ep url deadline interval_seconds err
             \<lparr>now = now w + took + of_int interval_seconds, requests = Suc (requests w),
              sleeps = Suc (sleeps w)\<rparr>"
    using poll_retry [OF assms, of w deadline ep url resp took err fuel last_error]
    by (simp add: after_retry_def)
  have stop: "\<not> now w < deadline \<longrightarrow>
           poll (Suc fuel) ep url deadline interval_seconds last_error w = Some (Inr None, last_error, w)"
    by (simp add: poll_deadline)
  have returns: "\<exists>n r err' w'.
              wait_for_models_endpoint_and_get_first_model n ep base_url timeout_seconds interval_seconds w =
                Some (Inr r, err', w')
            \<and> ((\<forall>i. recorded_error (fst (ep (rstrip_slash base_url @ ''/models'') i)) \<noteq> None) \<longrightarrow> r = None)
            \<and> (r = None \<longrightarrow> \<not> now w' < now w + of_int timeout_seconds)"
    if eps: "0 < eps" and progress: "\<forall>i. eps \<le> snd (ep (rstrip_slash base_url @ ''/models'') i) + of_int interval_seconds"
  proof -
    obtain k :: nat where "(now w + of_int timeout_seconds) - now w \<le> of_nat k * eps"
      using measure_exists [OF eps] by blast
    from poll_returns [where ep = ep and url = "rstrip_slash base_url @ ''/models''"
        and last_error = "''unknown error''", OF assms eps progress this]
    show ?thesis
      unfolding wait_for_models_endpoint_and_get_first_model_def by blast
  qed
  from retry stop returns show ?thesis by blast
qed

theorem prober_retries_until_deadline_witness:
  "wait_for_models_endpoint_and_get_first_model (Suc (Suc (Suc 0))) (scripted [(NonJson, 1)])
     ''http://localhost:8080/v1/'' 10 2 example_world =
   Some (Inr None, ''timed out'', \<lparr>now = 10, requests = Suc (Suc 0), sleeps = Suc (Suc 0)\<rparr>)"
proof -
  have i: "(0::int) \<le> 2" by simp
  have url: "rstrip_slash ''http://localhost:8080/v1/'' @ ''/models'' = ''http://localhost:8080/v1/models''"
    by (simp add: rstrip_slash_def)
  note first = prober_retries_until_deadline [OF i, where w = example_world and deadline = 10
      and ep = "scripted [(NonJson, 1)]" and url = "''http://localhost:8080/v1/models''"
      and resp = NonJson and took = 1 and err = "''non-JSON /v1/models response''"
      and fuel = "Suc (Suc 0)" and last_error = "''unknown error''", THEN conjunct1]
  note second = prober_retries_until_deadline [OF i,
      where w = "\<lparr>now = 3, requests = Suc 0, sleeps = Suc 0\<rparr>" and deadline = 10
      and ep = "scripted [(NonJson, 1)]" and url = "''http://localhost:8080/v1/models''"
      and resp = "Failed ''timed out''" and took = 5 and err = "''timed out''"
      and fuel = "Suc 0" and last_error = "''non-JSON /v1/models response''", THEN conjunct1]
  note third = prober_retries_until_deadline [OF i,
      where w = "\<lparr>now = 10, requests = Suc (Suc 0), sleeps = Suc (Suc 0)\<rparr>" and deadline = 10
      and ep = "scripted [(NonJson, 1)]" and url = "''http://localhost:8080/v1/models''"
      and fuel = 0 and last_error = "''timed out''", THEN conjunct2, THEN conjunct1]
  have a: "poll (Suc (Suc (Suc 0))) (scripted [(NonJson, 1)]) ''http://localhost:8080/v1/models'' 10 2
       ''unknown error'' example_world =
     poll (Suc (Suc 0)) (scripted [(NonJson, 1)]) ''http://localhost:8080/v1/models'' 10 2
       ''non-JSON /v1/models response'' \<lparr>now = 3, requests = Suc 0, sleeps = Suc 0\<rparr>"
    using first by (simp add: example_world_def scripted_def recorded_error_def del: poll.simps)
  have b: "poll (Suc (Suc 0)) (scripted [(NonJson, 1)]) ''http://localhost:8080/v1/models'' 10 2
       ''non-JSON /v1/models response'' \<lparr>now = 3, requests = Suc 0, sleeps = Suc 0\<rparr> =
     poll (Suc 0) (scripted [(NonJson, 1)]) ''http://localhost:8080/v1/models'' 10 2
       ''timed out'' \<lparr>now = 10, requests = Suc (Suc 0), sleeps = Suc (Suc 0)\<rparr>"
    using second by (simp add: scripted_def recorded_error_def del: poll.simps)
  have c: "poll (Suc 0) (scripted [(NonJson, 1)]) ''http://localhost:8080/v1/models'' 10 2
       ''timed out'' \<lparr>now = 10, requests = Suc (Suc 0), sleeps = Suc (Suc 0)\<rparr> =
     Some (Inr None, ''timed out'', \<lparr>now = 10, requests = Suc (Suc 0), sleeps = Suc (Suc 0)\<rparr>)"
    using third by (simp del: poll.simps)
  show ?thesis
    unfolding wait_for_models_endpoint_and_get_first_model_def url
    using a b c by (simp add: example_world_def del: poll.simps)
qed

text \<open>
  Claim C9. Only the first element of \<^verbatim>\<open>data\<close> is read: when it is not a mapping, or
  holds no string with something left after trimming (so, in particular, no non-empty
  string) under \<^verbatim>\<open>id\<close>, \<^verbatim>\<open>model\<close> or \<^verbatim>\<open>name\<close>, the loop records "No model entry found",
  sleeps and polls again, whatever the rest of the list holds.
\<close>

theorem prober_inspects_first_entry_only:
  assumes "0 \<le> interval_seconds"
    and "now w < deadline"
    and "ep url (requests w) = (Json (PDict payload), took)"
    and "map_of payload ''data'' = Some (PList (first # rest))"
    and "(\<forall>d. first \<noteq> PDict d)
       \<or> (\<exists>d. first = PDict d
             \<and> (\<forall>k \<in> {''id'', ''model'', ''name''}. \<forall>s. map_of d k = Some (PStr s) \<longrightarrow> py_strip s = []))"
  shows "poll (Suc fuel) ep url deadline interval_seconds last_error w =
     poll fuel ep url deadline interval_seconds ''No model entry found in /v1/models response''
       \<lparr>now = now w + took + of_int interval_seconds, requests = Suc (requests w),
        sleeps = Suc (sleeps w)\<rparr>"
proof -
  have "first_model (PDict payload) = Inr None"
    using assms(5)
  proof
    assume "\<forall>d. first \<noteq> PDict d"
    then show ?thesis
      using assms(4) by (cases first) (simp_all add: first_model_def get_default_def)
  next
    assume "\<exists>d. first = PDict d
             \<and> (\<forall>k \<in> {''id'', ''model'', ''name''}. \<forall>s. map_of d k = Some (PStr s) \<longrightarrow> py_strip s = [])"
    then obtain d where d: "first = PDict d"
      and none: "\<forall>k \<in> set [''id'', ''model'', ''name'']. \<forall>s. map_of d k = Some (PStr s) \<longrightarrow> py_strip s = []"
      by auto
    have "scan_keys d [''id'', ''model'', ''name''] = None"
      using none by (rule scan_keys_none)
    then show ?thesis
      using assms(4) d by (simp add: first_model_def get_default_def)
  qed
  then have "recorded_error (Json (PDict payload)) = Some ''No model entry found in /v1/models response''"
    by (simp add: recorded_error_def)
  from poll_retry [where ep = ep and url = url, OF assms(1,2,3) this] show ?thesis
    by (simp add: after_retry_def)
qed

theorem prober_inspects_first_entry_only_witness:
  "poll (Suc (Suc 0))
     (scripted [(Json (PDict [(''data'', PList [PDict [(''object'', PStr ''model'')], PDict [(''id'', PStr ''m1'')]])]), 1)])
     ''http://localhost:8080/v1/models'' 3 2 ''unknown error'' example_world =
   Some (Inr None, ''No model entry found in /v1/models response'', \<lparr>now = 3, requests = Suc 0, sleeps = Suc 0\<rparr>)"
proof -
  have i: "(0::int) \<le> 2" by simp
  have "poll (Suc (Suc 0))
     (scripted [(Json (PDict [(''data'', PList [PDict [(''object'', PStr ''model'')], PDict [(''id'', PStr ''m1'')]])]), 1)])
     ''http://localhost:8080/v1/models'' 3 2 ''unknown error'' example_world =
    poll (Suc 0)
     (scripted [(Json (PDict [(''data'', PList [PDict [(''object'', PStr ''model'')], PDict [(''id'', PStr ''m1'')]])]), 1)])
     ''http://localhost:8080/v1/models'' 3 2 ''No model entry found in /v1/models response''
     \<lparr>now = now example_world + 1 + of_int 2, requests = Suc (requests example_world),
        sleeps = Suc (sleeps example_world)\<rparr>"
    by (rule prober_inspects_first_entry_only [OF i,
          where payload = "[(''data'', PList [PDict [(''object'', PStr ''model'')], PDict [(''id'', PStr ''m1'')]])]"
            and first = "PDict [(''object'', PStr ''model'')]" and rest = "[PDict [(''id'', PStr ''m1'')]]"
            and took = 1])
       (simp_all add: example_world_def scripted_def)
  then show ?thesis
    by (simp add: example_world_def)
qed

text \<open>
  Claim C10. With a timeout of zero or less the prober returns absence at once: the world
  is unchanged, so no request was made and no sleep taken, and the endpoint is never
  consulted.
\<close>

theorem prober_nonpositive_timeout:
  assumes "timeout_seconds \<le> 0"
  shows "wait_for_models_endpoint_and_get_first_model (Suc fuel) ep base_url timeout_seconds
           interval_seconds w = Some (Inr None, ''unknown error'', w)"
  using assms by (simp add: wait_for_models_endpoint_and_get_first_model_def)

theorem prober_nonpositive_timeout_witness:
  "wait_for_models_endpoint_and_get_first_model (Suc 0)
     (scripted [(Json (PDict [(''data'', PList [PDict [(''id'', PStr ''m1'')]])]), 1)])
     ''http://localhost:8080/v1'' 0 2 example_world = Some (Inr None, ''unknown error'', example_world)
   \<and> wait_for_models_endpoint_and_get_first_model (Suc 0)
     (scripted [(Json (PDict [(''data'', PList [PDict [(''id'', PStr ''m1'')]])]), 1)])
     ''http://localhost:8080/v1'' (- 5) 2 example_world = Some (Inr None, ''unknown error'', example_world)"
proof -
  have z: "(0::int) \<le> 0" and n: "(- 5 :: int) \<le> 0" by simp_all
  from prober_nonpositive_timeout [OF z] prober_nonpositive_timeout [OF n]
  show ?thesis by blast
qed

end
